theory Spec2Isabelle
  imports Main "HOL-Library.Sublist" "HOL-Library.Multiset"
begin

section \<open>Text: Python strings over the code points U+0000..U+00FF\<close>

text \<open>
  The script \<^verbatim>\<open>scripts/add-all-profiles.py\<close> works on Python \<^verbatim>\<open>str\<close> values. A
  \<^typ>\<open>char\<close> stands for one code point in the range U+0000..U+00FF, so a \<^typ>\<open>string\<close> is a
  Python string over that range. On this range \<^verbatim>\<open>str.lower()\<close> works character by
  character: it adds 32 to the letters A..Z (65..90) and to the letters U+00C0..U+00DE
  other than the multiplication sign U+00D7, and leaves every other code point unchanged.
\<close>

definition is_upper :: "char \<Rightarrow> bool" where
  "is_upper c =
     (let n = (of_char c :: nat)
      in (65 \<le> n \<and> n \<le> 90) \<or> (192 \<le> n \<and> n \<le> 222 \<and> n \<noteq> 215))"

definition lower_char :: "char \<Rightarrow> char" where
  "lower_char c = (if is_upper c then char_of ((of_char c :: nat) + 32) else c)"

definition lower :: "string \<Rightarrow> string" where
  "lower s = map lower_char s"

text \<open>\<^verbatim>\<open>sep.join(items)\<close>: the items with \<open>sep\<close> between neighbours.\<close>

fun join :: "string \<Rightarrow> string list \<Rightarrow> string" where
  "join sep [] = []"
| "join sep [k] = k"
| "join sep (k # k' # ks) = k @ sep @ join sep (k' # ks)"

text \<open>
  \<^verbatim>\<open>re.search(pattern, text)\<close> for the patterns of this script, which are alternations
  \<^verbatim>\<open>a|b|c\<close> of literal words (letters and \<^verbatim>\<open>-\<close> only, no operator other than \<^verbatim>\<open>|\<close>).
  A pattern is the list of its alternatives in the order written. The script only tests
  the result for truth, which holds when some alternative occurs in the text as a
  contiguous substring.
\<close>

definition re_search :: "string list \<Rightarrow> string \<Rightarrow> bool" where
  "re_search alts text = list_ex (\<lambda>alt. sublist alt text) alts"

section \<open>The classifier\<close>

definition timber_pattern :: "string list" where
  "timber_pattern = [''timber'', ''wood'', ''oak'', ''bamboo'', ''larch'', ''cedar'', ''plywood'']"

definition metal_pattern :: "string list" where
  "metal_pattern = [''steel'', ''aluminum'', ''aluminium'', ''metal'', ''brass'', ''copper'', ''zinc'']"

definition concrete_pattern :: "string list" where
  "concrete_pattern = [''concrete'', ''cement'', ''microcement'']"

definition glass_pattern :: "string list" where
  "glass_pattern = [''glass'', ''glazing'']"

definition ceramic_pattern :: "string list" where
  "ceramic_pattern = [''ceramic'', ''terracotta'', ''porcelain'', ''clay'', ''brick'', ''tile'']"

definition plastic_pattern :: "string list" where
  "plastic_pattern =
     [''plastic'', ''vinyl'', ''upvc'', ''composite'', ''grp'', ''pet'', ''epoxy'', ''resin'']"

definition biobased_pattern :: "string list" where
  "biobased_pattern =
     [''hemp'', ''cork'', ''mycelium'', ''bio-based'', ''biobased'', ''wool'', ''felt'']"

definition earth_pattern :: "string list" where
  "earth_pattern = [''earth'', ''rammed'', ''lime'', ''plaster'', ''render'']"

definition stone_pattern :: "string list" where
  "stone_pattern = [''stone'', ''marble'', ''granite'', ''slate'', ''travertine'']"

definition textile_pattern :: "string list" where
  "textile_pattern = [''fabric'', ''textile'', ''carpet'', ''leather'', ''upholster'']"

definition paint_pattern :: "string list" where
  "paint_pattern = [''paint'', ''emulsion'']"

text \<open>The text the rules are tested on: \<^verbatim>\<open>f"{name} {desc} {' '.join(keywords)}".lower()\<close>.\<close>

definition material_text :: "string \<Rightarrow> string \<Rightarrow> string list \<Rightarrow> string" where
  "material_text name desc keywords =
     lower (name @ '' '' @ desc @ '' '' @ join '' '' keywords)"

definition classify_material :: "string \<Rightarrow> string \<Rightarrow> string list \<Rightarrow> string" where
  "classify_material name desc keywords =
     (let text = material_text name desc keywords in
      if re_search timber_pattern text then ''timber''
      else if re_search metal_pattern text then ''metal''
      else if re_search concrete_pattern text then ''concrete''
      else if re_search glass_pattern text then ''glass''
      else if re_search ceramic_pattern text then ''ceramic''
      else if re_search plastic_pattern text then ''plastic''
      else if re_search biobased_pattern text then ''biobased''
      else if re_search earth_pattern text then ''earth''
      else if re_search stone_pattern text then ''stone''
      else if re_search textile_pattern text then ''textile''
      else if re_search paint_pattern text then ''paint''
      else ''concrete'')"

section \<open>The profile table\<close>

text \<open>
  A rating is the dictionary \<^verbatim>\<open>{'impact': i, 'confidence': c}\<close>; a profile is a dictionary
  from phase names to ratings, and \<^verbatim>\<open>PROFILES\<close> a dictionary from categories to profiles.
  Dictionaries written as literals are kept as the list of their items in the order
  written, so that the number of entries of a key can be counted.
\<close>

record rating =
  impact :: int
  confidence :: string

type_synonym profile = "(string \<times> rating) list"

datatype error = KeyError string

text \<open>
  \<^verbatim>\<open>d[k]\<close> on a dictionary built from the items \<open>d\<close>: the value of the last item with key
  \<open>k\<close> (a later item of a literal replaces an earlier one), and \<^verbatim>\<open>KeyError\<close> when there is
  none.
\<close>

definition getitem :: "(string \<times> 'v) list \<Rightarrow> string \<Rightarrow> error + 'v" where
  "getitem d k = (case map_of (rev d) k of None \<Rightarrow> Inl (KeyError k) | Some v \<Rightarrow> Inr v)"

definition timber_profile :: profile where
  "timber_profile =
     [(''raw'', \<lparr>impact = 1, confidence = ''high''\<rparr>),
      (''manufacturing'', \<lparr>impact = 2, confidence = ''high''\<rparr>),
      (''transport'', \<lparr>impact = 2, confidence = ''medium''\<rparr>),
      (''installation'', \<lparr>impact = 2, confidence = ''high''\<rparr>),
      (''inUse'', \<lparr>impact = 1, confidence = ''high''\<rparr>),
      (''maintenance'', \<lparr>impact = 2, confidence = ''medium''\<rparr>),
      (''endOfLife'', \<lparr>impact = 1, confidence = ''high''\<rparr>)]"

definition ceramic_profile :: profile where
  "ceramic_profile =
     [(''raw'', \<lparr>impact = 2, confidence = ''high''\<rparr>),
      (''manufacturing'', \<lparr>impact = 5, confidence = ''high''\<rparr>),
      (''transport'', \<lparr>impact = 3, confidence = ''medium''\<rparr>),
      (''installation'', \<lparr>impact = 2, confidence = ''high''\<rparr>),
      (''inUse'', \<lparr>impact = 1, confidence = ''high''\<rparr>),
      (''maintenance'', \<lparr>impact = 1, confidence = ''high''\<rparr>),
      (''endOfLife'', \<lparr>impact = 2, confidence = ''medium''\<rparr>)]"

definition metal_profile :: profile where
  "metal_profile =
     [(''raw'', \<lparr>impact = 5, confidence = ''high''\<rparr>),
      (''manufacturing'', \<lparr>impact = 5, confidence = ''high''\<rparr>),
      (''transport'', \<lparr>impact = 3, confidence = ''medium''\<rparr>),
      (''installation'', \<lparr>impact = 2, confidence = ''high''\<rparr>),
      (''inUse'', \<lparr>impact = 1, confidence = ''high''\<rparr>),
      (''maintenance'', \<lparr>impact = 1, confidence = ''high''\<rparr>),
      (''endOfLife'', \<lparr>impact = 1, confidence = ''high''\<rparr>)]"

definition concrete_profile :: profile where
  "concrete_profile =
     [(''raw'', \<lparr>impact = 3, confidence = ''high''\<rparr>),
      (''manufacturing'', \<lparr>impact = 5, confidence = ''high''\<rparr>),
      (''transport'', \<lparr>impact = 3, confidence = ''medium''\<rparr>),
      (''installation'', \<lparr>impact = 3, confidence = ''high''\<rparr>),
      (''inUse'', \<lparr>impact = 1, confidence = ''high''\<rparr>),
      (''maintenance'', \<lparr>impact = 1, confidence = ''high''\<rparr>),
      (''endOfLife'', \<lparr>impact = 3, confidence = ''medium''\<rparr>)]"

definition glass_profile :: profile where
  "glass_profile =
     [(''raw'', \<lparr>impact = 3, confidence = ''high''\<rparr>),
      (''manufacturing'', \<lparr>impact = 4, confidence = ''high''\<rparr>),
      (''transport'', \<lparr>impact = 3, confidence = ''medium''\<rparr>),
      (''installation'', \<lparr>impact = 2, confidence = ''high''\<rparr>),
      (''inUse'', \<lparr>impact = 1, confidence = ''high''\<rparr>),
      (''maintenance'', \<lparr>impact = 1, confidence = ''high''\<rparr>),
      (''endOfLife'', \<lparr>impact = 3, confidence = ''medium''\<rparr>)]"

definition plastic_profile :: profile where
  "plastic_profile =
     [(''raw'', \<lparr>impact = 4, confidence = ''high''\<rparr>),
      (''manufacturing'', \<lparr>impact = 4, confidence = ''high''\<rparr>),
      (''transport'', \<lparr>impact = 2, confidence = ''medium''\<rparr>),
      (''installation'', \<lparr>impact = 1, confidence = ''high''\<rparr>),
      (''inUse'', \<lparr>impact = 1, confidence = ''high''\<rparr>),
      (''maintenance'', \<lparr>impact = 1, confidence = ''high''\<rparr>),
      (''endOfLife'', \<lparr>impact = 4, confidence = ''low''\<rparr>)]"

definition earth_profile :: profile where
  "earth_profile =
     [(''raw'', \<lparr>impact = 1, confidence = ''high''\<rparr>),
      (''manufacturing'', \<lparr>impact = 1, confidence = ''high''\<rparr>),
      (''transport'', \<lparr>impact = 1, confidence = ''high''\<rparr>),
      (''installation'', \<lparr>impact = 2, confidence = ''medium''\<rparr>),
      (''inUse'', \<lparr>impact = 1, confidence = ''high''\<rparr>),
      (''maintenance'', \<lparr>impact = 1, confidence = ''high''\<rparr>),
      (''endOfLife'', \<lparr>impact = 1, confidence = ''high''\<rparr>)]"

definition stone_profile :: profile where
  "stone_profile =
     [(''raw'', \<lparr>impact = 3, confidence = ''high''\<rparr>),
      (''manufacturing'', \<lparr>impact = 3, confidence = ''high''\<rparr>),
      (''transport'', \<lparr>impact = 4, confidence = ''medium''\<rparr>),
      (''installation'', \<lparr>impact = 2, confidence = ''high''\<rparr>),
      (''inUse'', \<lparr>impact = 1, confidence = ''high''\<rparr>),
      (''maintenance'', \<lparr>impact = 1, confidence = ''high''\<rparr>),
      (''endOfLife'', \<lparr>impact = 2, confidence = ''medium''\<rparr>)]"

definition textile_profile :: profile where
  "textile_profile =
     [(''raw'', \<lparr>impact = 2, confidence = ''medium''\<rparr>),
      (''manufacturing'', \<lparr>impact = 3, confidence = ''medium''\<rparr>),
      (''transport'', \<lparr>impact = 2, confidence = ''medium''\<rparr>),
      (''installation'', \<lparr>impact = 1, confidence = ''high''\<rparr>),
      (''inUse'', \<lparr>impact = 1, confidence = ''high''\<rparr>),
      (''maintenance'', \<lparr>impact = 2, confidence = ''medium''\<rparr>),
      (''endOfLife'', \<lparr>impact = 2, confidence = ''low''\<rparr>)]"

definition biobased_profile :: profile where
  "biobased_profile =
     [(''raw'', \<lparr>impact = 1, confidence = ''high''\<rparr>),
      (''manufacturing'', \<lparr>impact = 1, confidence = ''high''\<rparr>),
      (''transport'', \<lparr>impact = 2, confidence = ''medium''\<rparr>),
      (''installation'', \<lparr>impact = 2, confidence = ''medium''\<rparr>),
      (''inUse'', \<lparr>impact = 1, confidence = ''high''\<rparr>),
      (''maintenance'', \<lparr>impact = 1, confidence = ''high''\<rparr>),
      (''endOfLife'', \<lparr>impact = 1, confidence = ''high''\<rparr>)]"

definition paint_profile :: profile where
  "paint_profile =
     [(''raw'', \<lparr>impact = 3, confidence = ''medium''\<rparr>),
      (''manufacturing'', \<lparr>impact = 3, confidence = ''medium''\<rparr>),
      (''transport'', \<lparr>impact = 2, confidence = ''medium''\<rparr>),
      (''installation'', \<lparr>impact = 2, confidence = ''medium''\<rparr>),
      (''inUse'', \<lparr>impact = 1, confidence = ''high''\<rparr>),
      (''maintenance'', \<lparr>impact = 2, confidence = ''medium''\<rparr>),
      (''endOfLife'', \<lparr>impact = 2, confidence = ''low''\<rparr>)]"

definition PROFILES :: "(string \<times> profile) list" where
  "PROFILES =
     [(''timber'', timber_profile),
      (''ceramic'', ceramic_profile),
      (''metal'', metal_profile),
      (''concrete'', concrete_profile),
      (''glass'', glass_profile),
      (''plastic'', plastic_profile),
      (''earth'', earth_profile),
      (''stone'', stone_profile),
      (''textile'', textile_profile),
      (''biobased'', biobased_profile),
      (''paint'', paint_profile)]"

section \<open>Rendering a profile\<close>

definition nl :: string where
  "nl = [CHR 0x0A]"

definition quote :: string where
  "quote = [CHR 0x27]"

text \<open>\<^verbatim>\<open>str(n)\<close> for an integer: decimal digits, with a minus sign below zero.\<close>

fun digits :: "nat \<Rightarrow> string" where
  "digits n = (if n < 10 then [char_of (48 + n)] else digits (n div 10) @ [char_of (48 + n mod 10)])"

declare digits.simps [simp del]

definition str_int :: "int \<Rightarrow> string" where
  "str_int i = (if i < 0 then ''-'' @ digits (nat (- i)) else digits (nat i))"

text \<open>
  \<^verbatim>\<open>format_profile\<close> is one f-string. Its fields are evaluated from left to right, so the
  phases are looked up in the order in which they are written, and the first phase that
  the profile lacks raises \<^verbatim>\<open>KeyError\<close>.
\<close>

definition format_profile :: "string \<Rightarrow> profile \<Rightarrow> error + string" where
  "format_profile mat_id profile =
     (case getitem profile ''raw'' of Inl e \<Rightarrow> Inl e | Inr raw \<Rightarrow>
      case getitem profile ''manufacturing'' of Inl e \<Rightarrow> Inl e | Inr manufacturing \<Rightarrow>
      case getitem profile ''transport'' of Inl e \<Rightarrow> Inl e | Inr transport \<Rightarrow>
      case getitem profile ''installation'' of Inl e \<Rightarrow> Inl e | Inr installation \<Rightarrow>
      case getitem profile ''inUse'' of Inl e \<Rightarrow> Inl e | Inr inUse \<Rightarrow>
      case getitem profile ''maintenance'' of Inl e \<Rightarrow> Inl e | Inr maintenance \<Rightarrow>
      case getitem profile ''endOfLife'' of Inl e \<Rightarrow> Inl e | Inr endOfLife \<Rightarrow>
      Inr (''  '' @ quote @ mat_id @ quote @ '': {'' @ nl @
           ''    raw: { impact: '' @ str_int (impact raw) @ '', confidence: '' @ quote @ confidence raw @ quote @ '' },'' @ nl @
           ''    manufacturing: { impact: '' @ str_int (impact manufacturing) @ '', confidence: '' @ quote @ confidence manufacturing @ quote @ '' },'' @ nl @
           ''    transport: { impact: '' @ str_int (impact transport) @ '', confidence: '' @ quote @ confidence transport @ quote @ '' },'' @ nl @
           ''    installation: { impact: '' @ str_int (impact installation) @ '', confidence: '' @ quote @ confidence installation @ quote @ '' },'' @ nl @
           ''    inUse: { impact: '' @ str_int (impact inUse) @ '', confidence: '' @ quote @ confidence inUse @ quote @ '' },'' @ nl @
           ''    maintenance: { impact: '' @ str_int (impact maintenance) @ '', confidence: '' @ quote @ confidence maintenance @ quote @ '' },'' @ nl @
           ''    endOfLife: { impact: '' @ str_int (impact endOfLife) @ '', confidence: '' @ quote @ confidence endOfLife @ quote @ '' }'' @ nl @
           ''  }''))"

section \<open>The main loop\<close>

text \<open>
  A material as the script collects it: the dictionary with the keys \<^verbatim>\<open>id\<close>, \<^verbatim>\<open>name\<close>,
  \<^verbatim>\<open>description\<close> and \<^verbatim>\<open>keywords\<close>.
\<close>

record material =
  m_id :: string
  m_name :: string
  m_description :: string
  m_keywords :: "string list"

text \<open>
  The loop \<^verbatim>\<open>for mat in materials\<close> that fills \<^verbatim>\<open>new_profiles\<close>. The table is an argument
  here; the script runs the loop on \<^verbatim>\<open>PROFILES\<close>. An uncaught \<^verbatim>\<open>KeyError\<close> ends the
  script, so the loop stops at the first one.
\<close>

fun generate_loop ::
  "(string \<times> profile) list \<Rightarrow> string set \<Rightarrow> material list \<Rightarrow> string list \<Rightarrow> error + string list"
where
  "generate_loop table existing_profiles [] new_profiles = Inr new_profiles"
| "generate_loop table existing_profiles (mat # mats) new_profiles =
     (if m_id mat \<notin> existing_profiles then
        (case getitem table (classify_material (m_name mat) (m_description mat) (m_keywords mat)) of
           Inl e \<Rightarrow> Inl e
         | Inr profile \<Rightarrow>
             (case format_profile (m_id mat) profile of
                Inl e \<Rightarrow> Inl e
              | Inr text \<Rightarrow> generate_loop table existing_profiles mats (new_profiles @ [text])))
      else generate_loop table existing_profiles mats new_profiles)"

definition generate_new_profiles :: "string set \<Rightarrow> material list \<Rightarrow> error + string list" where
  "generate_new_profiles existing_profiles materials =
     generate_loop PROFILES existing_profiles materials []"

section \<open>The specification's view of the classifier and of the record\<close>

text \<open>
  The specification describes the classifier as an ordered list of (pattern, category)
  rules of which the first matching one wins, with a default when none matches. These
  definitions follow that description; the theorems below compare them with
  \<^const>\<open>classify_material\<close>, which follows the script.
\<close>

definition RULES :: "(string list \<times> string) list" where
  "RULES =
     [(timber_pattern, ''timber''), (metal_pattern, ''metal''), (concrete_pattern, ''concrete''),
      (glass_pattern, ''glass''), (ceramic_pattern, ''ceramic''), (plastic_pattern, ''plastic''),
      (biobased_pattern, ''biobased''), (earth_pattern, ''earth''), (stone_pattern, ''stone''),
      (textile_pattern, ''textile''), (paint_pattern, ''paint'')]"

fun first_match :: "(string list \<times> string) list \<Rightarrow> string \<Rightarrow> string \<Rightarrow> string" where
  "first_match [] dflt text = dflt"
| "first_match ((pat, cat) # rules) dflt text =
     (if re_search pat text then cat else first_match rules dflt text)"

text \<open>
  The specification describes the synthesized record as the material identifier with the
  ratings of the seven phases in a fixed order. \<open>render_record\<close> writes such a record for
  any list of (phase, rating) fields, one line per field.
\<close>

definition PHASES :: "string list" where
  "PHASES =
     [''raw'', ''manufacturing'', ''transport'', ''installation'', ''inUse'', ''maintenance'',
      ''endOfLife'']"

definition render_phase :: "string \<times> rating \<Rightarrow> string" where
  "render_phase f =
     ''    '' @ fst f @ '': { impact: '' @ str_int (impact (snd f)) @
     '', confidence: '' @ quote @ confidence (snd f) @ quote @ '' }''"

definition render_record :: "string \<Rightarrow> (string \<times> rating) list \<Rightarrow> string" where
  "render_record mat_id items =
     ''  '' @ quote @ mat_id @ quote @ '': {'' @ nl @
     join ('','' @ nl) (map render_phase items) @ nl @ ''  }''"



text \<open>
  The decimal digit that stands for an impact rating from 1 to 5, written out as a table.
\<close>

definition impact_digit :: "int \<Rightarrow> string" where
  "impact_digit i =
     (if i = 1 then ''1'' else if i = 2 then ''2'' else if i = 3 then ''3''
      else if i = 4 then ''4'' else if i = 5 then ''5'' else ''?'')"


text \<open>The number of entries that a table has for a category.\<close>

definition entries :: "(string \<times> profile) list \<Rightarrow> string \<Rightarrow> nat" where
  "entries table c = length (filter (\<lambda>entry. fst entry = c) table)"

section \<open>Facts about the classifier\<close>

lemma classify_material_first_match:
  "classify_material name desc keywords =
     first_match RULES ''concrete'' (material_text name desc keywords)"
  by (simp add: classify_material_def RULES_def Let_def)

lemma first_match_earliest:
  "i < length rules \<Longrightarrow> re_search (fst (rules ! i)) text \<Longrightarrow>
   \<forall>j<i. \<not> re_search (fst (rules ! j)) text \<Longrightarrow>
   first_match rules dflt text = snd (rules ! i)"
proof (induction rules arbitrary: i)
  case Nil
  then show ?case by simp
next
  case (Cons r rules)
  obtain pat cat where r: "r = (pat, cat)" by (cases r)
  show ?case
  proof (cases i)
    case 0
    with Cons.prems r show ?thesis by simp
  next
    case (Suc i')
    from Cons.prems(3) Suc have "\<not> re_search (fst ((r # rules) ! 0)) text" by blast
    then have no: "\<not> re_search pat text" using r by simp
    have "\<forall>j<i'. \<not> re_search (fst (rules ! j)) text"
    proof (intro allI impI)
      fix j assume "j < i'"
      then have "Suc j < i" using Suc by simp
      with Cons.prems(3) have "\<not> re_search (fst ((r # rules) ! Suc j)) text" by blast
      then show "\<not> re_search (fst (rules ! j)) text" by simp
    qed
    with Cons.IH[of i'] Cons.prems(1,2) Suc
    have "first_match rules dflt text = snd (rules ! i')" by simp
    with no r Suc show ?thesis by simp
  qed
qed

lemma classify_material_range:
  "classify_material name desc keywords \<in>
     {''timber'', ''metal'', ''concrete'', ''glass'', ''ceramic'', ''plastic'', ''biobased'',
      ''earth'', ''stone'', ''textile'', ''paint''}"
  by (simp add: classify_material_def Let_def)

lemma re_search_alt: "alt \<in> set alts \<Longrightarrow> sublist alt text \<Longrightarrow> re_search alts text"
  by (auto simp: re_search_def list_ex_iff)

section \<open>Facts about the table, the rendering and the text\<close>

lemma entries_PROFILES_each:
  "entries PROFILES ''timber'' = 1" "entries PROFILES ''metal'' = 1"
  "entries PROFILES ''concrete'' = 1" "entries PROFILES ''glass'' = 1"
  "entries PROFILES ''ceramic'' = 1" "entries PROFILES ''plastic'' = 1"
  "entries PROFILES ''biobased'' = 1" "entries PROFILES ''earth'' = 1"
  "entries PROFILES ''stone'' = 1" "entries PROFILES ''textile'' = 1"
  "entries PROFILES ''paint'' = 1"
  by (simp_all add: entries_def PROFILES_def)

lemma getitem_PROFILES_each:
  "getitem PROFILES ''timber'' = Inr timber_profile"
  "getitem PROFILES ''metal'' = Inr metal_profile"
  "getitem PROFILES ''concrete'' = Inr concrete_profile"
  "getitem PROFILES ''glass'' = Inr glass_profile"
  "getitem PROFILES ''ceramic'' = Inr ceramic_profile"
  "getitem PROFILES ''plastic'' = Inr plastic_profile"
  "getitem PROFILES ''biobased'' = Inr biobased_profile"
  "getitem PROFILES ''earth'' = Inr earth_profile"
  "getitem PROFILES ''stone'' = Inr stone_profile"
  "getitem PROFILES ''textile'' = Inr textile_profile"
  "getitem PROFILES ''paint'' = Inr paint_profile"
  by (simp_all add: getitem_def PROFILES_def)

lemma entries_PROFILES:
  assumes "c \<in> {''timber'', ''metal'', ''concrete'', ''glass'', ''ceramic'', ''plastic'', ''biobased'',
      ''earth'', ''stone'', ''textile'', ''paint''}"
  shows "entries PROFILES c = 1"
  using assms by (elim insertE emptyE) (simp_all only: entries_PROFILES_each)

lemma getitem_PROFILES:
  assumes "c \<in> {''timber'', ''metal'', ''concrete'', ''glass'', ''ceramic'', ''plastic'', ''biobased'',
      ''earth'', ''stone'', ''textile'', ''paint''}"
  shows "\<exists>p. getitem PROFILES c = Inr p \<and> (c, p) \<in> set PROFILES"
  using assms
  by (elim insertE emptyE) (simp_all only: getitem_PROFILES_each, simp_all add: PROFILES_def)

lemma str_int_small:
  "str_int 1 = ''1''" "str_int 2 = ''2''" "str_int 3 = ''3''" "str_int 4 = ''4''" "str_int 5 = ''5''"
  by code_simp+

lemma profile_shape:
  assumes "p = [(''raw'', r1), (''manufacturing'', r2), (''transport'', r3), (''installation'', r4),
      (''inUse'', r5), (''maintenance'', r6), (''endOfLife'', r7)]"
  shows "map fst p = PHASES" and "format_profile mat_id p = Inr (render_record mat_id p)"
    and "\<forall>(ph, r)\<in>set p. getitem p ph = Inr r"
  unfolding assms
  by (simp_all add: PHASES_def format_profile_def getitem_def render_record_def render_phase_def)

lemma PROFILES_shape:
  assumes "(c, p) \<in> set PROFILES"
  shows "\<exists>r1 r2 r3 r4 r5 r6 r7.
     p = [(''raw'', r1), (''manufacturing'', r2), (''transport'', r3), (''installation'', r4),
      (''inUse'', r5), (''maintenance'', r6), (''endOfLife'', r7)]"
proof -
  from assms have "p \<in> {timber_profile, ceramic_profile, metal_profile, concrete_profile,
      glass_profile, plastic_profile, earth_profile, stone_profile, textile_profile,
      biobased_profile, paint_profile}"
    by (auto simp: PROFILES_def)
  then show ?thesis
    by (elim insertE emptyE)
       (simp_all add: timber_profile_def ceramic_profile_def metal_profile_def
          concrete_profile_def glass_profile_def plastic_profile_def earth_profile_def
          stone_profile_def textile_profile_def biobased_profile_def paint_profile_def)
qed

lemma PROFILES_ratings:
  "\<forall>(c, p)\<in>set PROFILES. \<forall>(ph, r)\<in>set p.
     1 \<le> impact r \<and> impact r \<le> 5 \<and> confidence r \<in> {''high'', ''medium'', ''low''}"
  by (simp add: PROFILES_def timber_profile_def ceramic_profile_def metal_profile_def
          concrete_profile_def glass_profile_def plastic_profile_def earth_profile_def
          stone_profile_def textile_profile_def biobased_profile_def paint_profile_def)





lemma lower_join: "lower (join sep ks) = join (lower sep) (map lower ks)"
  by (induction sep ks rule: join.induct) (simp_all add: lower_def)

lemma lower_space: "lower '' '' = '' ''"
  by code_simp

lemma material_text_parts:
  "material_text name desc keywords =
     lower name @ '' '' @ lower desc @ '' '' @ join '' '' (map lower keywords)"
proof -
  have "material_text name desc keywords =
     lower name @ lower '' '' @ lower desc @ lower '' '' @ lower (join '' '' keywords)"
    by (simp add: material_text_def lower_def)
  then show ?thesis by (simp only: lower_space lower_join)
qed

lemma sublist_sep:
  assumes "sep \<notin> set p"
  shows "sublist p (a @ sep # b) \<longleftrightarrow> sublist p a \<or> sublist p b"
proof
  assume "sublist p (a @ sep # b)"
  then consider "sublist p a" | "sublist p (sep # b)"
    | p1 p2 where "p = p1 @ p2" "suffix p1 a" "prefix p2 (sep # b)"
    by (auto simp: sublist_append)
  then show "sublist p a \<or> sublist p b"
  proof cases
    case 1
    then show ?thesis by simp
  next
    case 2
    then have "prefix p (sep # b) \<or> sublist p b" by (simp add: sublist_Cons_right)
    moreover have "p = []" if "prefix p (sep # b)"
      using that assms by (cases p) auto
    ultimately show ?thesis by auto
  next
    case 3
    have "p2 = []" using 3(1,3) assms by (cases p2) auto
    with 3 have "suffix p a" by simp
    then show ?thesis by auto
  qed
next
  assume "sublist p a \<or> sublist p b"
  then show "sublist p (a @ sep # b)"
    by (auto simp: sublist_append sublist_Cons_right)
qed

lemma sublist_join:
  assumes "p \<noteq> []" "sep \<notin> set p"
  shows "sublist p (join [sep] ks) \<longleftrightarrow> (\<exists>k\<in>set ks. sublist p k)"
  using assms
  by (induction "[sep]" ks rule: join.induct) (simp_all add: sublist_sep)

lemma sublist_material_text:
  assumes "p \<noteq> []" "CHR '' '' \<notin> set p"
  shows "sublist p (material_text name desc keywords) \<longleftrightarrow>
     sublist p (lower name) \<or> sublist p (lower desc) \<or> (\<exists>k\<in>set keywords. sublist p (lower k))"
  using assms by (simp add: material_text_parts sublist_sep sublist_join)

lemma re_search_keywords_set:
  assumes "\<forall>p\<in>set alts. p \<noteq> [] \<and> CHR '' '' \<notin> set p" "set keywords = set keywords'"
  shows "re_search alts (material_text name desc keywords) =
         re_search alts (material_text name desc keywords')"
  using assms by (simp add: re_search_def list_ex_iff sublist_material_text)

lemma patterns_words:
  "\<forall>p\<in>set timber_pattern. p \<noteq> [] \<and> CHR '' '' \<notin> set p"
  "\<forall>p\<in>set metal_pattern. p \<noteq> [] \<and> CHR '' '' \<notin> set p"
  "\<forall>p\<in>set concrete_pattern. p \<noteq> [] \<and> CHR '' '' \<notin> set p"
  "\<forall>p\<in>set glass_pattern. p \<noteq> [] \<and> CHR '' '' \<notin> set p"
  "\<forall>p\<in>set ceramic_pattern. p \<noteq> [] \<and> CHR '' '' \<notin> set p"
  "\<forall>p\<in>set plastic_pattern. p \<noteq> [] \<and> CHR '' '' \<notin> set p"
  "\<forall>p\<in>set biobased_pattern. p \<noteq> [] \<and> CHR '' '' \<notin> set p"
  "\<forall>p\<in>set earth_pattern. p \<noteq> [] \<and> CHR '' '' \<notin> set p"
  "\<forall>p\<in>set stone_pattern. p \<noteq> [] \<and> CHR '' '' \<notin> set p"
  "\<forall>p\<in>set textile_pattern. p \<noteq> [] \<and> CHR '' '' \<notin> set p"
  "\<forall>p\<in>set paint_pattern. p \<noteq> [] \<and> CHR '' '' \<notin> set p"
  by (simp_all add: timber_pattern_def metal_pattern_def concrete_pattern_def glass_pattern_def
      ceramic_pattern_def plastic_pattern_def biobased_pattern_def earth_pattern_def
      stone_pattern_def textile_pattern_def paint_pattern_def)

lemma classify_material_keywords_set:
  assumes "set keywords = set keywords'"
  shows "classify_material name desc keywords = classify_material name desc keywords'"
  unfolding classify_material_def Let_def
  by (simp only: re_search_keywords_set[OF patterns_words(1) assms]
      re_search_keywords_set[OF patterns_words(2) assms]
      re_search_keywords_set[OF patterns_words(3) assms]
      re_search_keywords_set[OF patterns_words(4) assms]
      re_search_keywords_set[OF patterns_words(5) assms]
      re_search_keywords_set[OF patterns_words(6) assms]
      re_search_keywords_set[OF patterns_words(7) assms]
      re_search_keywords_set[OF patterns_words(8) assms]
      re_search_keywords_set[OF patterns_words(9) assms]
      re_search_keywords_set[OF patterns_words(10) assms]
      re_search_keywords_set[OF patterns_words(11) assms])











lemma str_int_impact_digit: "1 \<le> i \<Longrightarrow> i \<le> 5 \<Longrightarrow> str_int i = impact_digit i"
proof -
  assume "1 \<le> i" "i \<le> 5"
  then have "i = 1 \<or> i = 2 \<or> i = 3 \<or> i = 4 \<or> i = 5" by arith
  then show ?thesis by (elim disjE) (simp_all add: str_int_small impact_digit_def)
qed

lemma format_profile_text:
  assumes "p = [(''raw'', r1), (''manufacturing'', r2), (''transport'', r3), (''installation'', r4),
      (''inUse'', r5), (''maintenance'', r6), (''endOfLife'', r7)]"
    and "\<forall>r\<in>set [r1, r2, r3, r4, r5, r6, r7]. 1 \<le> impact r \<and> impact r \<le> 5"
  shows "format_profile mat_id p =
      Inr (''  '' @ [CHR 0x27] @ mat_id @ [CHR 0x27] @ '': {'' @ [CHR 0x0A] @
        ''    raw: { impact: '' @ impact_digit (impact r1) @
          '', confidence: '' @ [CHR 0x27] @ confidence r1 @ [CHR 0x27] @ '' },'' @ [CHR 0x0A] @
        ''    manufacturing: { impact: '' @ impact_digit (impact r2) @
          '', confidence: '' @ [CHR 0x27] @ confidence r2 @ [CHR 0x27] @ '' },'' @ [CHR 0x0A] @
        ''    transport: { impact: '' @ impact_digit (impact r3) @
          '', confidence: '' @ [CHR 0x27] @ confidence r3 @ [CHR 0x27] @ '' },'' @ [CHR 0x0A] @
        ''    installation: { impact: '' @ impact_digit (impact r4) @
          '', confidence: '' @ [CHR 0x27] @ confidence r4 @ [CHR 0x27] @ '' },'' @ [CHR 0x0A] @
        ''    inUse: { impact: '' @ impact_digit (impact r5) @
          '', confidence: '' @ [CHR 0x27] @ confidence r5 @ [CHR 0x27] @ '' },'' @ [CHR 0x0A] @
        ''    maintenance: { impact: '' @ impact_digit (impact r6) @
          '', confidence: '' @ [CHR 0x27] @ confidence r6 @ [CHR 0x27] @ '' },'' @ [CHR 0x0A] @
        ''    endOfLife: { impact: '' @ impact_digit (impact r7) @
          '', confidence: '' @ [CHR 0x27] @ confidence r7 @ [CHR 0x27] @ '' }'' @ [CHR 0x0A] @
        ''  }'')"
proof -
  from assms(2) have d: "str_int (impact r1) = impact_digit (impact r1)"
    "str_int (impact r2) = impact_digit (impact r2)"
    "str_int (impact r3) = impact_digit (impact r3)"
    "str_int (impact r4) = impact_digit (impact r4)"
    "str_int (impact r5) = impact_digit (impact r5)"
    "str_int (impact r6) = impact_digit (impact r6)"
    "str_int (impact r7) = impact_digit (impact r7)"
    by (simp_all add: str_int_impact_digit)
  show ?thesis
    unfolding assms(1)
    by (simp add: format_profile_def getitem_def d nl_def quote_def)
qed

section \<open>The claims\<close>

text \<open>
  Claim C1, as amended. The rules are tried in the order timber, metal, concrete, glass,
  ceramic, plastic, biobased, earth, stone, textile, paint and the first one whose pattern
  matches decides: the classifier agrees with \<^const>\<open>first_match\<close> on \<^const>\<open>RULES\<close>, so of
  the rules that match the text, the earliest listed gives the category. In particular a
  text that contains both \<open>glass\<close> and \<open>steel\<close> and matches no timber pattern is
  classified as metal.
\<close>

theorem classify_material_rule_order:
  "map snd RULES =
     [''timber'', ''metal'', ''concrete'', ''glass'', ''ceramic'', ''plastic'', ''biobased'',
      ''earth'', ''stone'', ''textile'', ''paint''] \<and>
   classify_material name desc keywords =
     first_match RULES ''concrete'' (material_text name desc keywords) \<and>
   (\<forall>i<length RULES.
      re_search (fst (RULES ! i)) (material_text name desc keywords) \<and>
      (\<forall>j<i. \<not> re_search (fst (RULES ! j)) (material_text name desc keywords)) \<longrightarrow>
      classify_material name desc keywords = snd (RULES ! i)) \<and>
   (sublist ''glass'' (material_text name desc keywords) \<and>
    sublist ''steel'' (material_text name desc keywords) \<and>
    \<not> re_search timber_pattern (material_text name desc keywords) \<longrightarrow>
    classify_material name desc keywords = ''metal'')"
proof (intro conjI)
  show "map snd RULES =
     [''timber'', ''metal'', ''concrete'', ''glass'', ''ceramic'', ''plastic'', ''biobased'',
      ''earth'', ''stone'', ''textile'', ''paint'']"
    by (simp add: RULES_def)
  show "classify_material name desc keywords =
     first_match RULES ''concrete'' (material_text name desc keywords)"
    by (rule classify_material_first_match)
  show "\<forall>i<length RULES.
      re_search (fst (RULES ! i)) (material_text name desc keywords) \<and>
      (\<forall>j<i. \<not> re_search (fst (RULES ! j)) (material_text name desc keywords)) \<longrightarrow>
      classify_material name desc keywords = snd (RULES ! i)"
    using first_match_earliest[of _ RULES "material_text name desc keywords" "''concrete''"]
    by (simp add: classify_material_first_match)
  show "sublist ''glass'' (material_text name desc keywords) \<and>
    sublist ''steel'' (material_text name desc keywords) \<and>
    \<not> re_search timber_pattern (material_text name desc keywords) \<longrightarrow>
    classify_material name desc keywords = ''metal''"
  proof (intro impI, elim conjE)
    assume s: "sublist ''steel'' (material_text name desc keywords)"
      and t: "\<not> re_search timber_pattern (material_text name desc keywords)"
    have "re_search metal_pattern (material_text name desc keywords)"
      by (rule re_search_alt[OF _ s]) (simp add: metal_pattern_def)
    with t show "classify_material name desc keywords = ''metal''"
      by (simp add: classify_material_def Let_def)
  qed
qed

text \<open>
  The rule order at the material \<open>steel-framed glass partition\<close>, whose text contains
  \<open>glass\<close> and \<open>steel\<close> and no timber word.
\<close>

theorem classify_material_rule_order_witness:
  "sublist ''glass'' (material_text ''steel-framed glass partition'' ''glass panels in a steel frame'' []) \<and>
   sublist ''steel'' (material_text ''steel-framed glass partition'' ''glass panels in a steel frame'' []) \<and>
   \<not> re_search timber_pattern (material_text ''steel-framed glass partition'' ''glass panels in a steel frame'' []) \<and>
   classify_material ''steel-framed glass partition'' ''glass panels in a steel frame'' [] = ''metal''"
proof -
  have g: "sublist ''glass'' (material_text ''steel-framed glass partition'' ''glass panels in a steel frame'' [])"
    by code_simp
  have s: "sublist ''steel'' (material_text ''steel-framed glass partition'' ''glass panels in a steel frame'' [])"
    by code_simp
  have t: "\<not> re_search timber_pattern (material_text ''steel-framed glass partition'' ''glass panels in a steel frame'' [])"
    by code_simp
  show ?thesis
    using g s t classify_material_rule_order[of "''steel-framed glass partition''" "''glass panels in a steel frame''" "[]"]
    by blast
qed

text \<open>
  A text may contain both \<open>glass\<close> and \<open>steel\<close> and still not be metal: when it
  also contains \<open>oak\<close>, the timber rule, which comes first, decides.
\<close>

theorem glass_and_steel_with_oak_is_timber:
  "sublist ''glass'' (material_text ''steel-framed glass partition'' ''glass and steel with oak trim'' []) \<and>
   sublist ''steel'' (material_text ''steel-framed glass partition'' ''glass and steel with oak trim'' []) \<and>
   classify_material ''steel-framed glass partition'' ''glass and steel with oak trim'' [] = ''timber'' \<and>
   classify_material ''steel-framed glass partition'' ''glass and steel with oak trim'' [] \<noteq> ''metal''"
  by code_simp

text \<open>
  Claim C2. The category that the classifier returns, for any input, has exactly one
  entry in \<^const>\<open>PROFILES\<close>, so its lookup succeeds; and every category of the rules, and
  the default \<open>concrete\<close>, has exactly one entry.
\<close>

theorem classifier_categories_have_one_profile:
  "entries PROFILES (classify_material name desc keywords) = 1 \<and>
   (\<exists>p. getitem PROFILES (classify_material name desc keywords) = Inr p) \<and>
   (\<forall>c \<in> set (map snd RULES) \<union> {''concrete''}. entries PROFILES c = 1)"
proof (intro conjI)
  show "entries PROFILES (classify_material name desc keywords) = 1"
    by (rule entries_PROFILES[OF classify_material_range])
  show "\<exists>p. getitem PROFILES (classify_material name desc keywords) = Inr p"
    using getitem_PROFILES[OF classify_material_range] by blast
  show "\<forall>c \<in> set (map snd RULES) \<union> {''concrete''}. entries PROFILES c = 1"
    by (simp add: RULES_def entries_PROFILES_each)
qed

text \<open>
  The table entries at the oak flooring material and at the category \<open>paint\<close>.
\<close>

theorem classifier_categories_have_one_profile_witness:
  "entries PROFILES (classify_material ''Oak Flooring'' ''solid oak boards'' [''wood'', ''flooring'']) = 1 \<and>
   getitem PROFILES (classify_material ''Oak Flooring'' ''solid oak boards'' [''wood'', ''flooring'']) = Inr timber_profile \<and>
   ''paint'' \<in> set (map snd RULES) \<union> {''concrete''} \<and> entries PROFILES ''paint'' = 1"
proof -
  have a: "''paint'' \<in> set (map snd RULES) \<union> {''concrete''}" by (simp add: RULES_def)
  have b: "getitem PROFILES (classify_material ''Oak Flooring'' ''solid oak boards'' [''wood'', ''flooring'']) = Inr timber_profile"
    by code_simp
  note t = classifier_categories_have_one_profile[of "''Oak Flooring''" "''solid oak boards''" "[''wood'', ''flooring'']"]
  from t have c: "entries PROFILES (classify_material ''Oak Flooring'' ''solid oak boards'' [''wood'', ''flooring'']) = 1"
    by (rule conjunct1)
  from t have "\<forall>c \<in> set (map snd RULES) \<union> {''concrete''}. entries PROFILES c = 1"
    by (rule conjunct2[OF conjunct2])
  then have d: "entries PROFILES ''paint'' = 1" using a by (rule bspec)
  from c b a d show ?thesis by (intro conjI)
qed

text \<open>
  Claim C3. For every entry of \<^const>\<open>PROFILES\<close>, the profile consists of the seven phases
  in the order raw, manufacturing, transport, installation, inUse, maintenance, endOfLife;
  each rating is the value stored under its phase, with an impact between 1 and 5 and a
  confidence among high, medium and low; and \<^const>\<open>format_profile\<close> succeeds with the
  text written out below: one line per phase in that order, each showing the decimal digit
  of the table's impact and the table's confidence between single quotes.
\<close>

theorem format_profile_renders_table_values:
  "(c, p) \<in> set PROFILES \<Longrightarrow>
   \<exists>r1 r2 r3 r4 r5 r6 r7.
     p = [(''raw'', r1), (''manufacturing'', r2), (''transport'', r3), (''installation'', r4),
          (''inUse'', r5), (''maintenance'', r6), (''endOfLife'', r7)] \<and>
     map fst p = PHASES \<and>
     (\<forall>(ph, r)\<in>set p.
        getitem p ph = Inr r \<and>
        1 \<le> impact r \<and> impact r \<le> 5 \<and> confidence r \<in> {''high'', ''medium'', ''low''}) \<and>
     format_profile mat_id p =
      Inr (''  '' @ [CHR 0x27] @ mat_id @ [CHR 0x27] @ '': {'' @ [CHR 0x0A] @
        ''    raw: { impact: '' @ impact_digit (impact r1) @
          '', confidence: '' @ [CHR 0x27] @ confidence r1 @ [CHR 0x27] @ '' },'' @ [CHR 0x0A] @
        ''    manufacturing: { impact: '' @ impact_digit (impact r2) @
          '', confidence: '' @ [CHR 0x27] @ confidence r2 @ [CHR 0x27] @ '' },'' @ [CHR 0x0A] @
        ''    transport: { impact: '' @ impact_digit (impact r3) @
          '', confidence: '' @ [CHR 0x27] @ confidence r3 @ [CHR 0x27] @ '' },'' @ [CHR 0x0A] @
        ''    installation: { impact: '' @ impact_digit (impact r4) @
          '', confidence: '' @ [CHR 0x27] @ confidence r4 @ [CHR 0x27] @ '' },'' @ [CHR 0x0A] @
        ''    inUse: { impact: '' @ impact_digit (impact r5) @
          '', confidence: '' @ [CHR 0x27] @ confidence r5 @ [CHR 0x27] @ '' },'' @ [CHR 0x0A] @
        ''    maintenance: { impact: '' @ impact_digit (impact r6) @
          '', confidence: '' @ [CHR 0x27] @ confidence r6 @ [CHR 0x27] @ '' },'' @ [CHR 0x0A] @
        ''    endOfLife: { impact: '' @ impact_digit (impact r7) @
          '', confidence: '' @ [CHR 0x27] @ confidence r7 @ [CHR 0x27] @ '' }'' @ [CHR 0x0A] @
        ''  }'')"
proof -
  assume in_table: "(c, p) \<in> set PROFILES"
  from PROFILES_shape[OF in_table] obtain r1 r2 r3 r4 r5 r6 r7 where
    p: "p = [(''raw'', r1), (''manufacturing'', r2), (''transport'', r3), (''installation'', r4),
      (''inUse'', r5), (''maintenance'', r6), (''endOfLife'', r7)]"
    by blast
  have ratings: "\<forall>(ph, r)\<in>set p.
     1 \<le> impact r \<and> impact r \<le> 5 \<and> confidence r \<in> {''high'', ''medium'', ''low''}"
    using PROFILES_ratings in_table by blast
  have vals: "\<forall>(ph, r)\<in>set p. getitem p ph = Inr r"
    by (rule profile_shape(3)[OF p])
  have both: "\<forall>(ph, r)\<in>set p.
      getitem p ph = Inr r \<and>
      1 \<le> impact r \<and> impact r \<le> 5 \<and> confidence r \<in> {''high'', ''medium'', ''low''}"
    using ratings vals by fast
  from ratings have bounds: "\<forall>r\<in>set [r1, r2, r3, r4, r5, r6, r7]. 1 \<le> impact r \<and> impact r \<le> 5"
    unfolding p by simp
  note f = format_profile_text[OF p bounds, of mat_id]
  from p profile_shape(1)[OF p] both f show ?thesis by blast
qed

text \<open>
  The plastic profile: its end-of-life rating and the whole text of its record.
\<close>

theorem format_profile_renders_table_values_witness:
  "(''plastic'', plastic_profile) \<in> set PROFILES \<and>
   getitem plastic_profile ''endOfLife'' = Inr \<lparr>impact = 4, confidence = ''low''\<rparr> \<and>
   format_profile ''pvc-sheet'' plastic_profile =
      Inr (''  '' @ [CHR 0x27] @ ''pvc-sheet'' @ [CHR 0x27] @ '': {'' @ [CHR 0x0A] @
        ''    raw: { impact: 4, confidence: '' @ [CHR 0x27] @ ''high'' @ [CHR 0x27] @ '' },'' @ [CHR 0x0A] @
        ''    manufacturing: { impact: 4, confidence: '' @ [CHR 0x27] @ ''high'' @ [CHR 0x27] @ '' },'' @ [CHR 0x0A] @
        ''    transport: { impact: 2, confidence: '' @ [CHR 0x27] @ ''medium'' @ [CHR 0x27] @ '' },'' @ [CHR 0x0A] @
        ''    installation: { impact: 1, confidence: '' @ [CHR 0x27] @ ''high'' @ [CHR 0x27] @ '' },'' @ [CHR 0x0A] @
        ''    inUse: { impact: 1, confidence: '' @ [CHR 0x27] @ ''high'' @ [CHR 0x27] @ '' },'' @ [CHR 0x0A] @
        ''    maintenance: { impact: 1, confidence: '' @ [CHR 0x27] @ ''high'' @ [CHR 0x27] @ '' },'' @ [CHR 0x0A] @
        ''    endOfLife: { impact: 4, confidence: '' @ [CHR 0x27] @ ''low'' @ [CHR 0x27] @ '' }'' @ [CHR 0x0A] @
        ''  }'')"
proof -
  have a: "(''plastic'', plastic_profile) \<in> set PROFILES" by (simp add: PROFILES_def)
  from format_profile_renders_table_values[OF a, of "''pvc-sheet''"] obtain r1 r2 r3 r4 r5 r6 r7 where
    p: "plastic_profile = [(''raw'', r1), (''manufacturing'', r2), (''transport'', r3),
          (''installation'', r4), (''inUse'', r5), (''maintenance'', r6), (''endOfLife'', r7)]"
    and v: "\<forall>(ph, r)\<in>set plastic_profile.
        getitem plastic_profile ph = Inr r \<and>
        1 \<le> impact r \<and> impact r \<le> 5 \<and> confidence r \<in> {''high'', ''medium'', ''low''}"
    and f: "format_profile ''pvc-sheet'' plastic_profile =
      Inr (''  '' @ [CHR 0x27] @ ''pvc-sheet'' @ [CHR 0x27] @ '': {'' @ [CHR 0x0A] @
        ''    raw: { impact: '' @ impact_digit (impact r1) @
          '', confidence: '' @ [CHR 0x27] @ confidence r1 @ [CHR 0x27] @ '' },'' @ [CHR 0x0A] @
        ''    manufacturing: { impact: '' @ impact_digit (impact r2) @
          '', confidence: '' @ [CHR 0x27] @ confidence r2 @ [CHR 0x27] @ '' },'' @ [CHR 0x0A] @
        ''    transport: { impact: '' @ impact_digit (impact r3) @
          '', confidence: '' @ [CHR 0x27] @ confidence r3 @ [CHR 0x27] @ '' },'' @ [CHR 0x0A] @
        ''    installation: { impact: '' @ impact_digit (impact r4) @
          '', confidence: '' @ [CHR 0x27] @ confidence r4 @ [CHR 0x27] @ '' },'' @ [CHR 0x0A] @
        ''    inUse: { impact: '' @ impact_digit (impact r5) @
          '', confidence: '' @ [CHR 0x27] @ confidence r5 @ [CHR 0x27] @ '' },'' @ [CHR 0x0A] @
        ''    maintenance: { impact: '' @ impact_digit (impact r6) @
          '', confidence: '' @ [CHR 0x27] @ confidence r6 @ [CHR 0x27] @ '' },'' @ [CHR 0x0A] @
        ''    endOfLife: { impact: '' @ impact_digit (impact r7) @
          '', confidence: '' @ [CHR 0x27] @ confidence r7 @ [CHR 0x27] @ '' }'' @ [CHR 0x0A] @
        ''  }'')"
    by blast
  from p have r: "r1 = \<lparr>impact = 4, confidence = ''high''\<rparr>"
    "r2 = \<lparr>impact = 4, confidence = ''high''\<rparr>"
    "r3 = \<lparr>impact = 2, confidence = ''medium''\<rparr>"
    "r4 = \<lparr>impact = 1, confidence = ''high''\<rparr>"
    "r5 = \<lparr>impact = 1, confidence = ''high''\<rparr>"
    "r6 = \<lparr>impact = 1, confidence = ''high''\<rparr>"
    "r7 = \<lparr>impact = 4, confidence = ''low''\<rparr>"
    by (auto simp: plastic_profile_def)
  have b: "(''endOfLife'', \<lparr>impact = 4, confidence = ''low''\<rparr>) \<in> set plastic_profile"
    by (simp add: plastic_profile_def)
  from bspec[OF v b]
  have e: "getitem plastic_profile ''endOfLife'' = Inr \<lparr>impact = 4, confidence = ''low''\<rparr>"
    by simp
  from f have g: "format_profile ''pvc-sheet'' plastic_profile =
      Inr (''  '' @ [CHR 0x27] @ ''pvc-sheet'' @ [CHR 0x27] @ '': {'' @ [CHR 0x0A] @
        ''    raw: { impact: 4, confidence: '' @ [CHR 0x27] @ ''high'' @ [CHR 0x27] @ '' },'' @ [CHR 0x0A] @
        ''    manufacturing: { impact: 4, confidence: '' @ [CHR 0x27] @ ''high'' @ [CHR 0x27] @ '' },'' @ [CHR 0x0A] @
        ''    transport: { impact: 2, confidence: '' @ [CHR 0x27] @ ''medium'' @ [CHR 0x27] @ '' },'' @ [CHR 0x0A] @
        ''    installation: { impact: 1, confidence: '' @ [CHR 0x27] @ ''high'' @ [CHR 0x27] @ '' },'' @ [CHR 0x0A] @
        ''    inUse: { impact: 1, confidence: '' @ [CHR 0x27] @ ''high'' @ [CHR 0x27] @ '' },'' @ [CHR 0x0A] @
        ''    maintenance: { impact: 1, confidence: '' @ [CHR 0x27] @ ''high'' @ [CHR 0x27] @ '' },'' @ [CHR 0x0A] @
        ''    endOfLife: { impact: 4, confidence: '' @ [CHR 0x27] @ ''low'' @ [CHR 0x27] @ '' }'' @ [CHR 0x0A] @
        ''  }'')"
    unfolding r by (simp add: impact_digit_def)
  from a e g show ?thesis by (intro conjI)
qed

text \<open>
  Claim C4. The classifier returns a category for every input (it has no failing branch);
  when no pattern of any rule matches the text it returns \<open>concrete\<close>, and the material
  named \<open>widget\<close> with empty description and no keywords is classified as \<open>concrete\<close>.
\<close>

theorem classify_material_default:
  "(\<not> re_search timber_pattern (material_text name desc keywords) \<and>
    \<not> re_search metal_pattern (material_text name desc keywords) \<and>
    \<not> re_search concrete_pattern (material_text name desc keywords) \<and>
    \<not> re_search glass_pattern (material_text name desc keywords) \<and>
    \<not> re_search ceramic_pattern (material_text name desc keywords) \<and>
    \<not> re_search plastic_pattern (material_text name desc keywords) \<and>
    \<not> re_search biobased_pattern (material_text name desc keywords) \<and>
    \<not> re_search earth_pattern (material_text name desc keywords) \<and>
    \<not> re_search stone_pattern (material_text name desc keywords) \<and>
    \<not> re_search textile_pattern (material_text name desc keywords) \<and>
    \<not> re_search paint_pattern (material_text name desc keywords) \<longrightarrow>
    classify_material name desc keywords = ''concrete'') \<and>
   classify_material ''widget'' '''' [] = ''concrete''"
proof
  show "\<not> re_search timber_pattern (material_text name desc keywords) \<and>
    \<not> re_search metal_pattern (material_text name desc keywords) \<and>
    \<not> re_search concrete_pattern (material_text name desc keywords) \<and>
    \<not> re_search glass_pattern (material_text name desc keywords) \<and>
    \<not> re_search ceramic_pattern (material_text name desc keywords) \<and>
    \<not> re_search plastic_pattern (material_text name desc keywords) \<and>
    \<not> re_search biobased_pattern (material_text name desc keywords) \<and>
    \<not> re_search earth_pattern (material_text name desc keywords) \<and>
    \<not> re_search stone_pattern (material_text name desc keywords) \<and>
    \<not> re_search textile_pattern (material_text name desc keywords) \<and>
    \<not> re_search paint_pattern (material_text name desc keywords) \<longrightarrow>
    classify_material name desc keywords = ''concrete''"
    by (simp add: classify_material_def Let_def)
  show "classify_material ''widget'' '''' [] = ''concrete''"
    by code_simp
qed

text \<open>
  A material that matches no rule.
\<close>

theorem classify_material_default_witness:
  "\<not> re_search timber_pattern (material_text ''Widget 3000'' ''a thing'' [''misc'']) \<and>
    \<not> re_search metal_pattern (material_text ''Widget 3000'' ''a thing'' [''misc'']) \<and>
    \<not> re_search concrete_pattern (material_text ''Widget 3000'' ''a thing'' [''misc'']) \<and>
    \<not> re_search glass_pattern (material_text ''Widget 3000'' ''a thing'' [''misc'']) \<and>
    \<not> re_search ceramic_pattern (material_text ''Widget 3000'' ''a thing'' [''misc'']) \<and>
    \<not> re_search plastic_pattern (material_text ''Widget 3000'' ''a thing'' [''misc'']) \<and>
    \<not> re_search biobased_pattern (material_text ''Widget 3000'' ''a thing'' [''misc'']) \<and>
    \<not> re_search earth_pattern (material_text ''Widget 3000'' ''a thing'' [''misc'']) \<and>
    \<not> re_search stone_pattern (material_text ''Widget 3000'' ''a thing'' [''misc'']) \<and>
    \<not> re_search textile_pattern (material_text ''Widget 3000'' ''a thing'' [''misc'']) \<and>
    \<not> re_search paint_pattern (material_text ''Widget 3000'' ''a thing'' [''misc'']) \<and>
    classify_material ''Widget 3000'' ''a thing'' [''misc''] = ''concrete''"
proof -
  have h: "\<not> re_search timber_pattern (material_text ''Widget 3000'' ''a thing'' [''misc'']) \<and>
    \<not> re_search metal_pattern (material_text ''Widget 3000'' ''a thing'' [''misc'']) \<and>
    \<not> re_search concrete_pattern (material_text ''Widget 3000'' ''a thing'' [''misc'']) \<and>
    \<not> re_search glass_pattern (material_text ''Widget 3000'' ''a thing'' [''misc'']) \<and>
    \<not> re_search ceramic_pattern (material_text ''Widget 3000'' ''a thing'' [''misc'']) \<and>
    \<not> re_search plastic_pattern (material_text ''Widget 3000'' ''a thing'' [''misc'']) \<and>
    \<not> re_search biobased_pattern (material_text ''Widget 3000'' ''a thing'' [''misc'']) \<and>
    \<not> re_search earth_pattern (material_text ''Widget 3000'' ''a thing'' [''misc'']) \<and>
    \<not> re_search stone_pattern (material_text ''Widget 3000'' ''a thing'' [''misc'']) \<and>
    \<not> re_search textile_pattern (material_text ''Widget 3000'' ''a thing'' [''misc'']) \<and>
    \<not> re_search paint_pattern (material_text ''Widget 3000'' ''a thing'' [''misc''])"
    by code_simp
  have imp: "\<not> re_search timber_pattern (material_text ''Widget 3000'' ''a thing'' [''misc'']) \<and>
    \<not> re_search metal_pattern (material_text ''Widget 3000'' ''a thing'' [''misc'']) \<and>
    \<not> re_search concrete_pattern (material_text ''Widget 3000'' ''a thing'' [''misc'']) \<and>
    \<not> re_search glass_pattern (material_text ''Widget 3000'' ''a thing'' [''misc'']) \<and>
    \<not> re_search ceramic_pattern (material_text ''Widget 3000'' ''a thing'' [''misc'']) \<and>
    \<not> re_search plastic_pattern (material_text ''Widget 3000'' ''a thing'' [''misc'']) \<and>
    \<not> re_search biobased_pattern (material_text ''Widget 3000'' ''a thing'' [''misc'']) \<and>
    \<not> re_search earth_pattern (material_text ''Widget 3000'' ''a thing'' [''misc'']) \<and>
    \<not> re_search stone_pattern (material_text ''Widget 3000'' ''a thing'' [''misc'']) \<and>
    \<not> re_search textile_pattern (material_text ''Widget 3000'' ''a thing'' [''misc'']) \<and>
    \<not> re_search paint_pattern (material_text ''Widget 3000'' ''a thing'' [''misc'']) \<longrightarrow>
    classify_material ''Widget 3000'' ''a thing'' [''misc''] = ''concrete''"
    by (rule conjunct1[OF classify_material_default])
  from imp h have c: "classify_material ''Widget 3000'' ''a thing'' [''misc''] = ''concrete''"
    by (rule mp)
  from h c show ?thesis by simp
qed




text \<open>
  Claim C6. The material named \<open>Oak Flooring\<close>, described as \<open>solid oak boards\<close>, with
  the keywords \<open>wood\<close> and \<open>flooring\<close>, is classified as timber; the raw phase of the
  timber profile has impact 1 and confidence high, and the record generated for the
  material begins with that raw-phase line.
\<close>

theorem oak_flooring_example:
  "classify_material ''Oak Flooring'' ''solid oak boards'' [''wood'', ''flooring''] = ''timber'' \<and>
   getitem PROFILES ''timber'' = Inr timber_profile \<and>
   getitem timber_profile ''raw'' = Inr \<lparr>impact = 1, confidence = ''high''\<rparr> \<and>
   (\<exists>rest.
      generate_new_profiles {}
        [\<lparr>m_id = mat_id, m_name = ''Oak Flooring'', m_description = ''solid oak boards'',
          m_keywords = [''wood'', ''flooring'']\<rparr>] =
      Inr [''  '' @ quote @ mat_id @ quote @ '': {'' @ nl @
           ''    raw: { impact: 1, confidence: '' @ quote @ ''high'' @ quote @ '' },'' @ nl @ rest])"
proof (intro conjI)
  show c: "classify_material ''Oak Flooring'' ''solid oak boards'' [''wood'', ''flooring''] = ''timber''"
    by code_simp
  show g: "getitem PROFILES ''timber'' = Inr timber_profile"
    by (rule getitem_PROFILES_each)
  show "getitem timber_profile ''raw'' = Inr \<lparr>impact = 1, confidence = ''high''\<rparr>"
    by (simp add: getitem_def timber_profile_def)
  have f: "format_profile mat_id timber_profile =
      Inr (''  '' @ quote @ mat_id @ quote @ '': {'' @ nl @
           ''    raw: { impact: 1, confidence: '' @ quote @ ''high'' @ quote @ '' },'' @ nl @
           ''    manufacturing: { impact: 2, confidence: '' @ quote @ ''high'' @ quote @ '' },'' @ nl @
           ''    transport: { impact: 2, confidence: '' @ quote @ ''medium'' @ quote @ '' },'' @ nl @
           ''    installation: { impact: 2, confidence: '' @ quote @ ''high'' @ quote @ '' },'' @ nl @
           ''    inUse: { impact: 1, confidence: '' @ quote @ ''high'' @ quote @ '' },'' @ nl @
           ''    maintenance: { impact: 2, confidence: '' @ quote @ ''medium'' @ quote @ '' },'' @ nl @
           ''    endOfLife: { impact: 1, confidence: '' @ quote @ ''high'' @ quote @ '' }'' @ nl @
           ''  }'')"
    by (simp add: format_profile_def getitem_def timber_profile_def str_int_small)
  show "\<exists>rest.
      generate_new_profiles {}
        [\<lparr>m_id = mat_id, m_name = ''Oak Flooring'', m_description = ''solid oak boards'',
          m_keywords = [''wood'', ''flooring'']\<rparr>] =
      Inr [''  '' @ quote @ mat_id @ quote @ '': {'' @ nl @
           ''    raw: { impact: 1, confidence: '' @ quote @ ''high'' @ quote @ '' },'' @ nl @ rest]"
    by (rule exI[of _ "''    manufacturing: { impact: 2, confidence: '' @ quote @ ''high'' @ quote @ '' },'' @ nl @
           ''    transport: { impact: 2, confidence: '' @ quote @ ''medium'' @ quote @ '' },'' @ nl @
           ''    installation: { impact: 2, confidence: '' @ quote @ ''high'' @ quote @ '' },'' @ nl @
           ''    inUse: { impact: 1, confidence: '' @ quote @ ''high'' @ quote @ '' },'' @ nl @
           ''    maintenance: { impact: 2, confidence: '' @ quote @ ''medium'' @ quote @ '' },'' @ nl @
           ''    endOfLife: { impact: 1, confidence: '' @ quote @ ''high'' @ quote @ '' }'' @ nl @
           ''  }''"])
       (simp add: generate_new_profiles_def c g f)
qed

text \<open>
  The same example with the identifier \<open>oak-flooring\<close>.
\<close>

theorem oak_flooring_example_witness:
  "classify_material ''Oak Flooring'' ''solid oak boards'' [''wood'', ''flooring''] = ''timber'' \<and>
   getitem PROFILES ''timber'' = Inr timber_profile \<and>
   getitem timber_profile ''raw'' = Inr \<lparr>impact = 1, confidence = ''high''\<rparr> \<and>
   (\<exists>rest.
      generate_new_profiles {}
        [\<lparr>m_id = ''oak-flooring'', m_name = ''Oak Flooring'', m_description = ''solid oak boards'',
          m_keywords = [''wood'', ''flooring'']\<rparr>] =
      Inr [''  '' @ quote @ ''oak-flooring'' @ quote @ '': {'' @ nl @
           ''    raw: { impact: 1, confidence: '' @ quote @ ''high'' @ quote @ '' },'' @ nl @ rest])"
  by (rule oak_flooring_example)

text \<open>
  Claim C8. A text that contains \<open>carpet\<close> contains \<open>pet\<close>, a pattern of the plastic
  rule, which comes before the textile rule. So such a material is never classified as
  textile, and it is classified as plastic whenever none of the five rules before plastic
  matches.
\<close>

theorem carpet_classifies_as_plastic:
  "sublist ''carpet'' (material_text name desc keywords) \<Longrightarrow>
   classify_material name desc keywords \<noteq> ''textile'' \<and>
   (\<not> re_search timber_pattern (material_text name desc keywords) \<and>
    \<not> re_search metal_pattern (material_text name desc keywords) \<and>
    \<not> re_search concrete_pattern (material_text name desc keywords) \<and>
    \<not> re_search glass_pattern (material_text name desc keywords) \<and>
    \<not> re_search ceramic_pattern (material_text name desc keywords) \<longrightarrow>
    classify_material name desc keywords = ''plastic'')"
proof -
  assume c: "sublist ''carpet'' (material_text name desc keywords)"
  have "sublist ''pet'' ''carpet''" by code_simp
  then have "sublist ''pet'' (material_text name desc keywords)"
    using c by (rule sublist_order.order.trans)
  then have p: "re_search plastic_pattern (material_text name desc keywords)"
    by (rule re_search_alt[rotated]) (simp add: plastic_pattern_def)
  show ?thesis using p by (simp add: classify_material_def Let_def)
qed

text \<open>
  A carpet whose text matches the textile pattern and is classified as plastic.
\<close>

theorem carpet_classifies_as_plastic_witness:
  "sublist ''carpet'' (material_text ''Loop Carpet'' ''hard-wearing floor covering'' [''flooring'']) \<and>
   \<not> re_search timber_pattern (material_text ''Loop Carpet'' ''hard-wearing floor covering'' [''flooring'']) \<and>
   \<not> re_search metal_pattern (material_text ''Loop Carpet'' ''hard-wearing floor covering'' [''flooring'']) \<and>
   \<not> re_search concrete_pattern (material_text ''Loop Carpet'' ''hard-wearing floor covering'' [''flooring'']) \<and>
   \<not> re_search glass_pattern (material_text ''Loop Carpet'' ''hard-wearing floor covering'' [''flooring'']) \<and>
   \<not> re_search ceramic_pattern (material_text ''Loop Carpet'' ''hard-wearing floor covering'' [''flooring'']) \<and>
   re_search textile_pattern (material_text ''Loop Carpet'' ''hard-wearing floor covering'' [''flooring'']) \<and>
   classify_material ''Loop Carpet'' ''hard-wearing floor covering'' [''flooring''] \<noteq> ''textile'' \<and>
   classify_material ''Loop Carpet'' ''hard-wearing floor covering'' [''flooring''] = ''plastic''"
proof -
  have s: "sublist ''carpet'' (material_text ''Loop Carpet'' ''hard-wearing floor covering'' [''flooring''])"
    by code_simp
  have h: "\<not> re_search timber_pattern (material_text ''Loop Carpet'' ''hard-wearing floor covering'' [''flooring'']) \<and>
   \<not> re_search metal_pattern (material_text ''Loop Carpet'' ''hard-wearing floor covering'' [''flooring'']) \<and>
   \<not> re_search concrete_pattern (material_text ''Loop Carpet'' ''hard-wearing floor covering'' [''flooring'']) \<and>
   \<not> re_search glass_pattern (material_text ''Loop Carpet'' ''hard-wearing floor covering'' [''flooring'']) \<and>
   \<not> re_search ceramic_pattern (material_text ''Loop Carpet'' ''hard-wearing floor covering'' [''flooring''])"
    by code_simp
  have x: "re_search textile_pattern (material_text ''Loop Carpet'' ''hard-wearing floor covering'' [''flooring''])"
    by code_simp
  note t = carpet_classifies_as_plastic[OF s]
  from t have n: "classify_material ''Loop Carpet'' ''hard-wearing floor covering'' [''flooring''] \<noteq> ''textile''"
    by (rule conjunct1)
  from conjunct2[OF t] h
  have p: "classify_material ''Loop Carpet'' ''hard-wearing floor covering'' [''flooring''] = ''plastic''"
    by (rule mp)
  from s h x n p show ?thesis by simp
qed

text \<open>
  Claim C9. The category does not change when the keyword list is permuted.
\<close>

theorem classify_material_keyword_order:
  "mset keywords = mset keywords' \<Longrightarrow>
   classify_material name desc keywords = classify_material name desc keywords'"
  by (rule classify_material_keywords_set) (rule mset_eq_setD)

text \<open>
  A keyword list and a rearrangement of it.
\<close>

theorem classify_material_keyword_order_witness:
  "mset [''wood'', ''flooring'', ''steel''] = mset [''steel'', ''wood'', ''flooring''] \<and>
   classify_material ''Deck'' ''boards'' [''wood'', ''flooring'', ''steel''] =
   classify_material ''Deck'' ''boards'' [''steel'', ''wood'', ''flooring'']"
proof -
  have m: "mset [''wood'', ''flooring'', ''steel''] = mset [''steel'', ''wood'', ''flooring'']"
    by (simp add: add_mset_commute)
  from m classify_material_keyword_order[OF m, of "''Deck''" "''boards''"] show ?thesis by (rule conjI)
qed




end
